theory Spec2Isabelle
  imports Main
begin

section \<open>Python values\<close>

text \<open>
  A Python \<open>str\<close> is a sequence of Unicode code points. The messages of the bot are
  Russian text with emoji, so a string is modelled as the list of its code points;
  \<open>ascii\<close> embeds an ASCII literal.
\<close>

type_synonym pystr = "nat list"

definition ascii :: "string \<Rightarrow> pystr" where
  "ascii s = map of_char s"

text \<open>
  Floating point arithmetic is not modelled. The program never computes with a float: it
  prints it (\<open>str\<close>, inside the f-string) and tests its truth value. A float is
  therefore carried as these two observations.
\<close>

datatype pyfloat = PyFloat (float_str: pystr) (float_nonzero: bool)

text \<open>
  What \<open>response.json()\<close> returns: a JSON document as a Python object. A dict is an
  association list read with \<open>map_of\<close>.
\<close>

datatype json =
    JNull
  | JBool bool
  | JInt int
  | JFloat pyfloat
  | JStr pystr
  | JArr "json list"
  | JObj "(pystr \<times> json) list"

text \<open>
  The exception classes the handlers can meet. Each of them derives from Python's
  \<open>Exception\<close>.
\<close>

datatype exn =
    HTTPStatusError nat pystr
  | RequestError pystr
  | JSONDecodeError
  | KeyError
  | IndexError
  | TypeError
  | AttributeError
  | TelegramError
  | SQLAlchemyError

fun is_HTTPStatusError :: "exn \<Rightarrow> bool" where
  "is_HTTPStatusError (HTTPStatusError _ _) = True"
| "is_HTTPStatusError _ = False"

fun is_RequestError :: "exn \<Rightarrow> bool" where
  "is_RequestError (RequestError _) = True"
| "is_RequestError _ = False"

fun is_Exception :: "exn \<Rightarrow> bool" where
  "is_Exception _ = True"

text \<open>Sequencing of two steps either of which may raise.\<close>

definition try_then :: "exn + 'a \<Rightarrow> ('a \<Rightarrow> exn + 'b) \<Rightarrow> exn + 'b" where
  "try_then r k = (case r of Inl e \<Rightarrow> Inl e | Inr x \<Rightarrow> k x)"

text \<open>\<open>obj[key]\<close> for a string key: only a dict accepts it.\<close>

fun getitem :: "json \<Rightarrow> pystr \<Rightarrow> exn + json" where
  "getitem (JObj kvs) k = (case map_of kvs k of None \<Rightarrow> Inl KeyError | Some v \<Rightarrow> Inr v)"
| "getitem _ k = Inl TypeError"

text \<open>
  \<open>obj[0]\<close>: the first element of a list, the first character of a string; a dict
  decoded from JSON has string keys only, so the key \<open>0\<close> is missing.
\<close>

fun getitem0 :: "json \<Rightarrow> exn + json" where
  "getitem0 (JArr xs) = (case xs of [] \<Rightarrow> Inl IndexError | x # _ \<Rightarrow> Inr x)"
| "getitem0 (JStr s) = (case s of [] \<Rightarrow> Inl IndexError | c # _ \<Rightarrow> Inr (JStr [c]))"
| "getitem0 (JObj kvs) = Inl KeyError"
| "getitem0 _ = Inl TypeError"

text \<open>Python's truth value of an object.\<close>

fun truthy :: "json \<Rightarrow> bool" where
  "truthy JNull = False"
| "truthy (JBool b) = b"
| "truthy (JInt i) = (i \<noteq> 0)"
| "truthy (JFloat f) = float_nonzero f"
| "truthy (JStr s) = (s \<noteq> [])"
| "truthy (JArr xs) = (xs \<noteq> [])"
| "truthy (JObj kvs) = (kvs \<noteq> [])"

text \<open>\<open>str(n)\<close> for an integer: decimal digits, a minus sign when negative.\<close>

fun str_nat :: "nat \<Rightarrow> pystr" where
  "str_nat n = (if n < 10 then [48 + n] else str_nat (n div 10) @ [48 + n mod 10])"

declare str_nat.simps [simp del]

definition str_int :: "int \<Rightarrow> pystr" where
  "str_int i = (if i < 0 then 45 # str_nat (nat (- i)) else str_nat (nat i))"

text \<open>
  Two parts of the Python runtime are parameters: the \<open>repr\<close> of a list or dict (what
  \<open>str\<close> gives for a container) and \<open>str.capitalize\<close> on a string with a code point
  outside ASCII, which needs the Unicode case tables.
\<close>

record pylib =
  repr_container :: "json \<Rightarrow> pystr"
  capitalize_ext :: "pystr \<Rightarrow> pystr"

fun py_str :: "pylib \<Rightarrow> json \<Rightarrow> pystr" where
  "py_str L JNull = ascii ''None''"
| "py_str L (JBool b) = (if b then ascii ''True'' else ascii ''False'')"
| "py_str L (JInt i) = str_int i"
| "py_str L (JFloat f) = float_str f"
| "py_str L (JStr s) = s"
| "py_str L (JArr xs) = repr_container L (JArr xs)"
| "py_str L (JObj kvs) = repr_container L (JObj kvs)"

definition ascii_upper :: "nat \<Rightarrow> nat" where
  "ascii_upper c = (if 97 \<le> c \<and> c \<le> 122 then c - 32 else c)"

definition ascii_lower :: "nat \<Rightarrow> nat" where
  "ascii_lower c = (if 65 \<le> c \<and> c \<le> 90 then c + 32 else c)"

text \<open>\<open>s.capitalize()\<close>: first character upper case, the rest lower case.\<close>

definition capitalize :: "pylib \<Rightarrow> pystr \<Rightarrow> pystr" where
  "capitalize L s =
     (if list_all (\<lambda>c. c < 128) s
      then (case s of [] \<Rightarrow> [] | c # cs \<Rightarrow> ascii_upper c # map ascii_lower cs)
      else capitalize_ext L s)"

text \<open>\<open>sep.join(xs)\<close> with the separator \<open>' '\<close>.\<close>

fun join_space :: "pystr list \<Rightarrow> pystr" where
  "join_space [] = []"
| "join_space [x] = x"
| "join_space (x # y # ys) = x @ [32] @ join_space (y # ys)"

text \<open>\<open>sub in s\<close> for two strings.\<close>

fun startswith :: "'a list \<Rightarrow> 'a list \<Rightarrow> bool" where
  "startswith s [] = True"
| "startswith [] (p # ps) = False"
| "startswith (c # cs) (p # ps) = (c = p \<and> startswith cs ps)"

fun contains :: "'a list \<Rightarrow> 'a list \<Rightarrow> bool" where
  "contains [] sub = (sub = [])"
| "contains (c # cs) sub = (startswith (c # cs) sub \<or> contains cs sub)"

section \<open>The string literals of \<open>bot.py\<close>\<close>

text \<open>Each constant is the code point list of the literal on the line named.\<close>

definition MSG_SETTINGS_ERROR :: pystr where \<comment> \<open>line 114\<close>
  "MSG_SETTINGS_ERROR = [1055, 1088, 1086, 1080, 1079, 1086, 1096, 1083, 1072, 32, 1086, 1096, 1080, 1073, 1082, 1072, 32, 1087, 1088, 1080, 32, 1087, 1086, 1083, 1091, 1095, 1077, 1085, 1080, 1080, 32, 1085, 1072, 1089, 1090, 1088, 1086, 1077, 1082, 46, 32, 1055, 1086, 1078, 1072, 1083, 1091, 1081, 1089, 1090, 1072, 44, 32, 1087, 1086, 1087, 1088, 1086, 1073, 1091, 1081, 1090, 1077, 32, 1087, 1086, 1079, 1078, 1077, 46]"

definition MSG_SPECIFY_CITY :: pystr where \<comment> \<open>line 125\<close>
  "MSG_SPECIFY_CITY = [10067, 32, 1059, 1082, 1072, 1078, 1080, 1090, 1077, 32, 1075, 1086, 1088, 1086, 1076, 46, 10, 1055, 1088, 1080, 1084, 1077, 1088, 58, 32, 47, 119, 101, 97, 116, 104, 101, 114, 32, 1052, 1086, 1089, 1082, 1074, 1072]"

definition MSG_NO_WEATHER :: pystr where \<comment> \<open>line 146\<close>
  "MSG_NO_WEATHER = [10060, 32, 1053, 1077, 32, 1091, 1076, 1072, 1083, 1086, 1089, 1100, 32, 1087, 1086, 1083, 1091, 1095, 1080, 1090, 1100, 32, 1076, 1072, 1085, 1085, 1099, 1077, 32, 1086, 32, 1087, 1086, 1075, 1086, 1076, 1077, 46, 32, 1055, 1088, 1086, 1074, 1077, 1088, 1100, 1090, 1077, 32, 1085, 1072, 1079, 1074, 1072, 1085, 1080, 1077, 32, 1075, 1086, 1088, 1086, 1076, 1072, 46]"

text \<open>The seven literal pieces of the f-string of lines 137 to 143, in order.\<close>

definition TPL_CITY :: pystr where
  "TPL_CITY = [127780, 32, 42, 1055, 1086, 1075, 1086, 1076, 1072, 32, 1074, 32]"

definition TPL_TEMP :: pystr where
  "TPL_TEMP = [42, 10, 127777, 32, 42, 1058, 1077, 1084, 1087, 1077, 1088, 1072, 1090, 1091, 1088, 1072, 58, 42, 32]"

definition TPL_FEELS :: pystr where
  "TPL_FEELS = [176, 67, 10, 127777, 32, 42, 1054, 1097, 1091, 1097, 1072, 1077, 1090, 1089, 1103, 32, 1082, 1072, 1082, 58, 42, 32]"

definition TPL_DESCR :: pystr where
  "TPL_DESCR = [176, 67, 10, 9729, 65039, 32, 42, 1054, 1087, 1080, 1089, 1072, 1085, 1080, 1077, 58, 42, 32]"

definition TPL_HUMID :: pystr where
  "TPL_HUMID = [10, 128167, 32, 42, 1042, 1083, 1072, 1078, 1085, 1086, 1089, 1090, 1100, 58, 42, 32]"

definition TPL_WIND :: pystr where
  "TPL_WIND = [37, 10, 128168, 32, 42, 1057, 1082, 1086, 1088, 1086, 1089, 1090, 1100, 32, 1074, 1077, 1090, 1088, 1072, 58, 42, 32]"

definition TPL_END :: pystr where
  "TPL_END = [32, 1084, 47, 1089, 10, 10, 128313, 32, 42, 1041, 1086, 1090, 32, 1089, 1086, 1079, 1076, 1072, 1085, 32, 1074, 32, 1082, 1072, 1095, 1077, 1089, 1090, 1074, 1077, 32, 1090, 1077, 1089, 1090, 1072, 32, 1076, 1083, 1103, 32, 1082, 1086, 1084, 1087, 1072, 1085, 1080, 1080, 32, 66, 111, 98, 114, 65, 105, 46, 42]"

definition MSG_SETCITY_USAGE :: pystr where \<comment> \<open>line 179\<close>
  "MSG_SETCITY_USAGE = [10067, 32, 1055, 1086, 1078, 1072, 1083, 1091, 1081, 1089, 1090, 1072, 44, 32, 1091, 1082, 1072, 1078, 1080, 1090, 1077, 32, 1075, 1086, 1088, 1086, 1076, 46, 10, 1055, 1088, 1080, 1084, 1077, 1088, 58, 32, 47, 115, 101, 116, 99, 105, 116, 121, 32, 1052, 1086, 1089, 1082, 1074, 1072]"

definition MSG_SETCITY_ERROR :: pystr where \<comment> \<open>line 197\<close>
  "MSG_SETCITY_ERROR = [10060, 32, 1055, 1088, 1086, 1080, 1079, 1086, 1096, 1083, 1072, 32, 1086, 1096, 1080, 1073, 1082, 1072, 32, 1087, 1088, 1080, 32, 1091, 1089, 1090, 1072, 1085, 1086, 1074, 1082, 1077, 32, 1075, 1086, 1088, 1086, 1076, 1072, 46, 32, 1055, 1086, 1078, 1072, 1083, 1091, 1081, 1089, 1090, 1072, 44, 32, 1087, 1086, 1087, 1088, 1086, 1073, 1091, 1081, 1090, 1077, 32, 1087, 1086, 1079, 1078, 1077, 46]"

definition MSG_CITY_SET :: pystr where \<comment> \<open>line 201, the literal before the city\<close>
  "MSG_CITY_SET = [9989, 32, 1043, 1086, 1088, 1086, 1076, 32, 1091, 1089, 1090, 1072, 1085, 1086, 1074, 1083, 1077, 1085, 32, 1085, 1072, 32]"

definition MSG_YOUR_CITY :: pystr where \<comment> \<open>line 212, the literal before the city\<close>
  "MSG_YOUR_CITY = [128205, 32, 1042, 1072, 1096, 32, 1091, 1089, 1090, 1072, 1085, 1086, 1074, 1083, 1077, 1085, 1085, 1099, 1081, 32, 1075, 1086, 1088, 1086, 1076, 58, 32]"

definition MSG_CITY_NOT_SET :: pystr where \<comment> \<open>line 215\<close>
  "MSG_CITY_NOT_SET = [10060, 32, 1043, 1086, 1088, 1086, 1076, 32, 1085, 1077, 32, 1091, 1089, 1090, 1072, 1085, 1086, 1074, 1083, 1077, 1085, 46, 32, 1048, 1089, 1087, 1086, 1083, 1100, 1079, 1091, 1081, 1090, 1077, 32, 47, 115, 101, 116, 99, 105, 116, 121, 32, 60, 1075, 1086, 1088, 1086, 1076, 62, 32, 1076, 1083, 1103, 32, 1091, 1089, 1090, 1072, 1085, 1086, 1074, 1082, 1080, 46]"

definition MSG_GETCITY_ERROR :: pystr where \<comment> \<open>line 219\<close>
  "MSG_GETCITY_ERROR = [10060, 32, 1055, 1088, 1086, 1080, 1079, 1086, 1096, 1083, 1072, 32, 1086, 1096, 1080, 1073, 1082, 1072, 32, 1087, 1088, 1080, 32, 1087, 1086, 1083, 1091, 1095, 1077, 1085, 1080, 1080, 32, 1085, 1072, 1089, 1090, 1088, 1086, 1077, 1082, 46, 32, 1055, 1086, 1078, 1072, 1083, 1091, 1081, 1089, 1090, 1072, 44, 32, 1087, 1086, 1087, 1088, 1086, 1073, 1091, 1081, 1090, 1077, 32, 1087, 1086, 1079, 1078, 1077, 46]"

section \<open>The weather client: \<open>get_weather\<close>, lines 67 to 99\<close>

text \<open>
  What one GET to the provider comes back with: a response (status code, body text, and
  what \<open>response.json()\<close> gives for the body, \<open>None\<close> when the decoder raises), or
  no response at all (connection error, timeout), which httpx raises as a
  \<open>RequestError\<close>. The JSON decoder itself is not modelled.
\<close>

datatype http_outcome =
    Response (status_code: nat) (body_text: pystr) (body_json: "json option")
  | RequestFailed pystr

text \<open>The dict built on lines 81 to 88; a field per key, in the order of the source.\<close>

record weather =
  gorod :: json
  temperatura :: json
  oshchushchaetsya_kak :: json
  opisanie :: json
  vlazhnost :: json
  skorost_vetra :: json

text \<open>\<open>response.raise_for_status()\<close>: any status outside 200..299 raises.\<close>

definition raise_for_status :: "nat \<Rightarrow> pystr \<Rightarrow> exn + unit" where
  "raise_for_status st txt =
     (if 200 \<le> st \<and> st < 300 then Inr () else Inl (HTTPStatusError st txt))"

text \<open>The six reads of the payload, as the source writes them.\<close>

definition data_name :: "json \<Rightarrow> exn + json" where
  "data_name d = getitem d (ascii ''name'')"

definition data_temp :: "json \<Rightarrow> exn + json" where
  "data_temp d = try_then (getitem d (ascii ''main'')) (\<lambda>m. getitem m (ascii ''temp''))"

definition data_feels_like :: "json \<Rightarrow> exn + json" where
  "data_feels_like d =
     try_then (getitem d (ascii ''main'')) (\<lambda>m. getitem m (ascii ''feels_like''))"

definition data_description :: "json \<Rightarrow> exn + json" where
  "data_description d =
     try_then (getitem d (ascii ''weather'')) (\<lambda>ws.
     try_then (getitem0 ws) (\<lambda>first. getitem first (ascii ''description'')))"

definition data_humidity :: "json \<Rightarrow> exn + json" where
  "data_humidity d =
     try_then (getitem d (ascii ''main'')) (\<lambda>m. getitem m (ascii ''humidity''))"

definition data_wind_speed :: "json \<Rightarrow> exn + json" where
  "data_wind_speed d =
     try_then (getitem d (ascii ''wind'')) (\<lambda>wd. getitem wd (ascii ''speed''))"

text \<open>Lines 81 to 88: the dict display evaluates its values top to bottom.\<close>

definition build_weather :: "json \<Rightarrow> exn + weather" where
  "build_weather d =
     try_then (data_name d) (\<lambda>v1.
     try_then (data_temp d) (\<lambda>v2.
     try_then (data_feels_like d) (\<lambda>v3.
     try_then (data_description d) (\<lambda>v4.
     try_then (data_humidity d) (\<lambda>v5.
     try_then (data_wind_speed d) (\<lambda>v6.
       Inr \<lparr>gorod = v1, temperatura = v2, oshchushchaetsya_kak = v3,
            opisanie = v4, vlazhnost = v5, skorost_vetra = v6\<rparr>))))))"

text \<open>The body of the \<open>try\<close>, lines 78 to 90.\<close>

definition try_block :: "http_outcome \<Rightarrow> exn + weather" where
  "try_block out =
     (case out of
        RequestFailed msg \<Rightarrow> Inl (RequestError msg)
      | Response st txt body \<Rightarrow>
          try_then (raise_for_status st txt) (\<lambda>_.
          try_then (case body of None \<Rightarrow> Inl JSONDecodeError | Some d \<Rightarrow> Inr d)
            build_weather))"

text \<open>
  The undecorated function: the \<open>try\<close> with its three handlers, in the order of the
  source. \<open>Inl\<close> is an exception that leaves the function; \<open>Inr None\<close> is the value
  \<open>None\<close>.
\<close>

definition get_weather_body :: "http_outcome \<Rightarrow> exn + weather option" where
  "get_weather_body out =
     (case try_block out of
        Inr w \<Rightarrow> Inr (Some w)
      | Inl e \<Rightarrow>
          if is_HTTPStatusError e then Inr None
          else if is_RequestError e then Inr None
          else if is_Exception e then Inr None
          else Inl e)"

section \<open>The cache decorator of line 66\<close>

text \<open>
  \<open>@cached(ttl=600, cache=Cache.MEMORY, serializer=JsonSerializer())\<close> comes from the
  aiocache library. Its decorator reads the key; a value other than \<open>None\<close> is returned
  without calling the function; otherwise the function is called and its result is
  written under the key with the TTL, whatever the result is. A result \<open>None\<close> is
  written as JSON \<open>null\<close>, which reads back as \<open>None\<close>, that is as a miss. The memory
  backend deletes an entry when its TTL has run out. The key is made of the function's
  name and the arguments, so it is the city here; the JSON round trip of a value that was
  decoded from JSON is the identity. Time is a clock reading in seconds, given with each
  call.
\<close>

definition TTL :: nat where
  "TTL = 600"

record cache_entry =
  stored :: "weather option"
  expires_at :: nat

type_synonym cache = "pystr \<rightharpoonup> cache_entry"

definition cache_get :: "cache \<Rightarrow> nat \<Rightarrow> pystr \<Rightarrow> weather option" where
  "cache_get c now key =
     (case c key of
        None \<Rightarrow> None
      | Some e \<Rightarrow> if now < expires_at e then stored e else None)"

definition cache_set :: "cache \<Rightarrow> nat \<Rightarrow> pystr \<Rightarrow> weather option \<Rightarrow> cache" where
  "cache_set c now key v = c(key \<mapsto> \<lparr>stored = v, expires_at = now + TTL\<rparr>)"

section \<open>The world of the handlers\<close>

text \<open>A row of the table \<open>logs\<close> as the handler builds it; id and timestamp are the database's.\<close>

record log_row =
  log_user_id :: int
  log_command :: pystr
  log_response :: pystr

text \<open>
  What the handlers do to their collaborators, in order: a query of \<open>user_settings\<close>, a
  call of the decorated \<open>get_weather\<close>, a GET to the provider, a \<open>reply_text\<close> (with
  whether the transport delivered it).
\<close>

datatype event =
    DbQuery int
  | CallGetWeather pystr
  | HttpGet pystr
  | ReplyText pystr bool

text \<open>
  The table \<open>user_settings\<close> has the user id as primary key: a map. The table \<open>logs\<close>
  is the list of its rows in insertion order.
\<close>

record world =
  user_settings :: "int \<rightharpoonup> pystr"
  logs :: "log_row list"
  weather_cache :: cache
  trace :: "event list"

text \<open>
  What the surroundings do during one handler run: the clock, the provider's answer for a
  city, and which of the fallible operations fail (a database query, a database commit,
  the transport's send).
\<close>

record env =
  clock :: nat
  provider :: "pystr \<Rightarrow> http_outcome"
  db_query_fails :: bool
  db_commit_fails :: bool
  send_fails :: bool

text \<open>The inbound message: \<open>update.effective_user.id\<close>, \<open>update.message.text\<close>, \<open>context.args\<close>.\<close>

record update =
  user_id :: int
  message_text :: pystr
  args :: "pystr list"

datatype outcome = Returned | Raised exn

definition log_event :: "event \<Rightarrow> world \<Rightarrow> world" where
  "log_event ev w = w\<lparr>trace := trace w @ [ev]\<rparr>"

text \<open>The decorated \<open>get_weather\<close>.\<close>

definition get_weather :: "env \<Rightarrow> pystr \<Rightarrow> world \<Rightarrow> (exn + weather option) \<times> world" where
  "get_weather e city w =
     (let w1 = log_event (CallGetWeather city) w in
      case cache_get (weather_cache w1) (clock e) city of
        Some v \<Rightarrow> (Inr (Some v), w1)
      | None \<Rightarrow>
          (let w2 = log_event (HttpGet city) w1 in
           case get_weather_body (provider e city) of
             Inl x \<Rightarrow> (Inl x, w2)
           | Inr r \<Rightarrow>
               (Inr r, w2\<lparr>weather_cache := cache_set (weather_cache w2) (clock e) city r\<rparr>)))"

section \<open>The handlers\<close>

text \<open>\<open>await update.message.reply_text(...)\<close>.\<close>

definition reply_text :: "env \<Rightarrow> pystr \<Rightarrow> world \<Rightarrow> (exn + unit) \<times> world" where
  "reply_text e msg w =
     (if send_fails e then (Inl TelegramError, log_event (ReplyText msg False) w)
      else (Inr (), log_event (ReplyText msg True) w))"

text \<open>A reply outside any \<open>try\<close>, followed by the end of the handler.\<close>

definition reply_and_return :: "env \<Rightarrow> pystr \<Rightarrow> world \<Rightarrow> outcome \<times> world" where
  "reply_and_return e msg w =
     (case reply_text e msg w of
        (Inl x, w') \<Rightarrow> (Raised x, w')
      | (Inr _, w') \<Rightarrow> (Returned, w'))"

text \<open>
  Lines 120 to 131: the city from the arguments, or from the row read before;
  \<open>None\<close> is the branch that asks for a city.
\<close>

definition resolve_city :: "pystr list \<Rightarrow> pystr option \<Rightarrow> pystr option" where
  "resolve_city as setting =
     (if length as = 0
      then (case setting of
              Some c \<Rightarrow> if c \<noteq> [] then Some c else None
            | None \<Rightarrow> None)
      else Some (join_space as))"

text \<open>Lines 136 to 144: the f-string. Only a \<open>str\<close> has \<open>capitalize\<close>.\<close>

definition format_weather :: "pylib \<Rightarrow> weather \<Rightarrow> exn + pystr" where
  "format_weather L v =
     (case opisanie v of
        JStr d \<Rightarrow>
          Inr (TPL_CITY @ py_str L (gorod v)
             @ TPL_TEMP @ py_str L (temperatura v)
             @ TPL_FEELS @ py_str L (oshchushchaetsya_kak v)
             @ TPL_DESCR @ capitalize L d
             @ TPL_HUMID @ py_str L (vlazhnost v)
             @ TPL_WIND @ py_str L (skorost_vetra v)
             @ TPL_END)
      | _ \<Rightarrow> Inl AttributeError)"

text \<open>Lines 135 to 146.\<close>

definition build_message :: "pylib \<Rightarrow> weather option \<Rightarrow> exn + pystr" where
  "build_message L r =
     (case r of
        None \<Rightarrow> Inr MSG_NO_WEATHER
      | Some v \<Rightarrow> if truthy (gorod v) then format_weather L v else Inr MSG_NO_WEATHER)"

text \<open>Lines 159 to 172: the row is added and committed; an exception is logged and dropped.\<close>

definition write_log :: "env \<Rightarrow> update \<Rightarrow> pystr \<Rightarrow> world \<Rightarrow> world" where
  "write_log e u msg w =
     (if db_commit_fails e then w
      else w\<lparr>logs := logs w @
             [\<lparr>log_user_id = user_id u, log_command = message_text u, log_response = msg\<rparr>]\<rparr>)"

text \<open>Lines 151 to 172: the send inside its \<open>try\<close>, then the log.\<close>

definition send_and_log :: "env \<Rightarrow> update \<Rightarrow> pystr \<Rightarrow> world \<Rightarrow> outcome \<times> world" where
  "send_and_log e u msg w =
     (case reply_text e msg w of
        (Inl x, w') \<Rightarrow> (Returned, w')
      | (Inr _, w') \<Rightarrow> (Returned, write_log e u msg w'))"

definition weather_command :: "pylib \<Rightarrow> env \<Rightarrow> update \<Rightarrow> world \<Rightarrow> outcome \<times> world" where
  "weather_command L e u w =
     (let w1 = log_event (DbQuery (user_id u)) w in
      if db_query_fails e then reply_and_return e MSG_SETTINGS_ERROR w1
      else
        (case resolve_city (args u) (user_settings w1 (user_id u)) of
           None \<Rightarrow> reply_and_return e MSG_SPECIFY_CITY w1
         | Some city \<Rightarrow>
             (case get_weather e city w1 of
                (Inl x, w2) \<Rightarrow> (Raised x, w2)
              | (Inr r, w2) \<Rightarrow>
                  (case build_message L r of
                     Inl x \<Rightarrow> (Raised x, w2)
                   | Inr msg \<Rightarrow> send_and_log e u msg w2))))"

text \<open>
  \<open>set_city\<close>, lines 175 to 201. The query and the commit share one \<open>try\<close>; a failure
  of either leaves the table as it was.
\<close>

definition set_city :: "env \<Rightarrow> update \<Rightarrow> world \<Rightarrow> outcome \<times> world" where
  "set_city e u w =
     (if length (args u) = 0 then reply_and_return e MSG_SETCITY_USAGE w
      else
        (let city = join_space (args u);
             w1 = log_event (DbQuery (user_id u)) w
         in if db_query_fails e \<or> db_commit_fails e
            then reply_and_return e MSG_SETCITY_ERROR w1
            else reply_and_return e (MSG_CITY_SET @ city)
                   (w1\<lparr>user_settings := (user_settings w1)(user_id u \<mapsto> city)\<rparr>)))"

text \<open>\<open>get_city\<close>, lines 204 to 222.\<close>

definition get_city :: "env \<Rightarrow> update \<Rightarrow> world \<Rightarrow> outcome \<times> world" where
  "get_city e u w =
     (let w1 = log_event (DbQuery (user_id u)) w;
          message =
            (if db_query_fails e then MSG_GETCITY_ERROR
             else (case user_settings w1 (user_id u) of
                     Some c \<Rightarrow> MSG_YOUR_CITY @ c
                   | None \<Rightarrow> MSG_CITY_NOT_SET))
      in reply_and_return e message w1)"

section \<open>The fields the payload is expected to have\<close>

text \<open>
  The interface names six fields of the payload by their paths: \<open>name\<close>,
  \<open>main.temp\<close>, \<open>main.feels_like\<close>, \<open>weather[0].description\<close>,
  \<open>main.humidity\<close>, \<open>wind.speed\<close>. This is that description written down on its
  own, apart from the code that reads the payload: a key steps into an object that has
  it, \<open>[0]\<close> into the first element of a non-empty array, and anything else is a
  missing field.
\<close>

datatype step = Key string | First

fun field_at :: "json \<Rightarrow> step list \<Rightarrow> json option" where
  "field_at v [] = Some v"
| "field_at (JObj kvs) (Key k # p) =
     (case map_of kvs (ascii k) of None \<Rightarrow> None | Some v \<Rightarrow> field_at v p)"
| "field_at (JArr (x # xs)) (First # p) = field_at x p"
| "field_at _ _ = None"

definition expected_fields :: "step list list" where
  "expected_fields =
     [[Key ''name''], [Key ''main'', Key ''temp''], [Key ''main'', Key ''feels_like''],
      [Key ''weather'', First, Key ''description''], [Key ''main'', Key ''humidity''],
      [Key ''wind'', Key ''speed'']]"

text \<open>
  The snapshot a payload stands for: none when one of the six fields is missing, else the
  six values found at the paths.
\<close>

definition expected_snapshot :: "json \<Rightarrow> weather option" where
  "expected_snapshot d =
     (if list_ex (\<lambda>p. field_at d p = None) expected_fields then None
      else Some \<lparr>gorod = the (field_at d [Key ''name'']),
                 temperatura = the (field_at d [Key ''main'', Key ''temp'']),
                 oshchushchaetsya_kak = the (field_at d [Key ''main'', Key ''feels_like'']),
                 opisanie = the (field_at d [Key ''weather'', First, Key ''description'']),
                 vlazhnost = the (field_at d [Key ''main'', Key ''humidity'']),
                 skorost_vetra = the (field_at d [Key ''wind'', Key ''speed''])\<rparr>)"

section \<open>Observations and sample inputs\<close>

text \<open>The events a handler run adds to the trace.\<close>

definition new_events :: "world \<Rightarrow> world \<Rightarrow> event list" where
  "new_events w w' = drop (length (trace w)) (trace w')"

text \<open>
  The scenario of the specification: the command \<open>/weather Moscow\<close>, and the provider's
  payload for it.
\<close>

definition Moscow :: pystr where
  "Moscow = ascii ''Moscow''"

definition moscow_payload :: json where
  "moscow_payload = JObj
     [(ascii ''name'', JStr (ascii ''Moscow'')),
      (ascii ''main'', JObj [(ascii ''temp'', JInt 5), (ascii ''feels_like'', JInt 3),
                            (ascii ''humidity'', JInt 40)]),
      (ascii ''weather'', JArr [JObj [(ascii ''description'', JStr (ascii ''clear''))]]),
      (ascii ''wind'', JObj [(ascii ''speed'', JInt 2)])]"

text \<open>The same payload without \<open>wind\<close>, and with an empty \<open>weather\<close> array.\<close>

definition moscow_payload_no_wind :: json where
  "moscow_payload_no_wind = JObj
     [(ascii ''name'', JStr (ascii ''Moscow'')),
      (ascii ''main'', JObj [(ascii ''temp'', JInt 5), (ascii ''feels_like'', JInt 3),
                            (ascii ''humidity'', JInt 40)]),
      (ascii ''weather'', JArr [JObj [(ascii ''description'', JStr (ascii ''clear''))]])]"

definition moscow_payload_no_weather :: json where
  "moscow_payload_no_weather = JObj
     [(ascii ''name'', JStr (ascii ''Moscow'')),
      (ascii ''main'', JObj [(ascii ''temp'', JInt 5), (ascii ''feels_like'', JInt 3),
                            (ascii ''humidity'', JInt 40)]),
      (ascii ''weather'', JArr []),
      (ascii ''wind'', JObj [(ascii ''speed'', JInt 2)])]"

definition moscow_response :: http_outcome where
  "moscow_response = Response 200 [] (Some moscow_payload)"

definition moscow_weather :: weather where
  "moscow_weather = \<lparr>gorod = JStr (ascii ''Moscow''), temperatura = JInt 5,
     oshchushchaetsya_kak = JInt 3, opisanie = JStr (ascii ''clear''),
     vlazhnost = JInt 40, skorost_vetra = JInt 2\<rparr>"

definition update_moscow :: update where
  "update_moscow = \<lparr>user_id = 42, message_text = ascii ''/weather Moscow'',
     args = [ascii ''Moscow'']\<rparr>"

text \<open>
  The text Python builds for that payload with the f-string of lines 137 to 143, as code
  points.
\<close>

definition moscow_reply :: pystr where
  "moscow_reply = [127780, 32, 42, 1055, 1086, 1075, 1086, 1076, 1072, 32, 1074, 32, 77, 111, 115, 99, 111, 119, 42, 10, 127777, 32, 42, 1058, 1077, 1084, 1087, 1077, 1088, 1072, 1090, 1091, 1088, 1072, 58, 42, 32, 53, 176, 67, 10, 127777, 32, 42, 1054, 1097, 1091, 1097, 1072, 1077, 1090, 1089, 1103, 32, 1082, 1072, 1082, 58, 42, 32, 51, 176, 67, 10, 9729, 65039, 32, 42, 1054, 1087, 1080, 1089, 1072, 1085, 1080, 1077, 58, 42, 32, 67, 108, 101, 97, 114, 10, 128167, 32, 42, 1042, 1083, 1072, 1078, 1085, 1086, 1089, 1090, 1100, 58, 42, 32, 52, 48, 37, 10, 128168, 32, 42, 1057, 1082, 1086, 1088, 1086, 1089, 1090, 1100, 32, 1074, 1077, 1090, 1088, 1072, 58, 42, 32, 50, 32, 1084, 47, 1089, 10, 10, 128313, 32, 42, 1041, 1086, 1090, 32, 1089, 1086, 1079, 1076, 1072, 1085, 32, 1074, 32, 1082, 1072, 1095, 1077, 1089, 1090, 1074, 1077, 32, 1090, 1077, 1089, 1090, 1072, 32, 1076, 1083, 1103, 32, 1082, 1086, 1084, 1087, 1072, 1085, 1080, 1080, 32, 66, 111, 98, 114, 65, 105, 46, 42]"

text \<open>A request that times out, and a provider that rejects the city.\<close>

definition timed_out :: http_outcome where
  "timed_out = RequestFailed (ascii ''timed out'')"

definition not_found :: http_outcome where
  "not_found = Response 404 (ascii ''city not found'') (Some JNull)"

text \<open>An empty database and cache, a runtime, and surroundings in which nothing fails.\<close>

definition world0 :: world where
  "world0 = \<lparr>user_settings = Map.empty, logs = [], weather_cache = Map.empty, trace = []\<rparr>"

definition lib0 :: pylib where
  "lib0 = \<lparr>repr_container = (\<lambda>_. []), capitalize_ext = (\<lambda>s. s)\<rparr>"

definition env_at :: "nat \<Rightarrow> http_outcome \<Rightarrow> env" where
  "env_at t out = \<lparr>clock = t, provider = (\<lambda>_. out),
     db_query_fails = False, db_commit_fails = False, send_fails = False\<rparr>"

text \<open>The same surroundings with one operation failing.\<close>

definition env_send_fails :: env where
  "env_send_fails = (env_at 1000 moscow_response)\<lparr>send_fails := True\<rparr>"

definition env_commit_fails :: env where
  "env_commit_fails = (env_at 1000 moscow_response)\<lparr>db_commit_fails := True\<rparr>"

definition env_query_fails :: env where
  "env_query_fails = (env_at 1000 moscow_response)\<lparr>db_query_fails := True\<rparr>"

text \<open>The command \<open>/weather\<close> without a city, and two \<open>/setcity\<close> commands.\<close>

definition update_bare :: update where
  "update_bare = \<lparr>user_id = 42, message_text = ascii ''/weather'', args = []\<rparr>"

definition update_setcity_paris :: update where
  "update_setcity_paris = \<lparr>user_id = 42, message_text = ascii ''/setcity Paris'',
     args = [ascii ''Paris'']\<rparr>"

definition update_setcity_new_york :: update where
  "update_setcity_new_york = \<lparr>user_id = 42, message_text = ascii ''/setcity New York'',
     args = [ascii ''New'', ascii ''York'']\<rparr>"

definition update_getcity :: update where
  "update_getcity = \<lparr>user_id = 42, message_text = ascii ''/getcity'', args = []\<rparr>"

section \<open>The weather client and its cache\<close>

lemma get_weather_body_value:
  "get_weather_body out = Inr (case try_block out of Inr v \<Rightarrow> Some v | Inl x \<Rightarrow> None)"
  by (simp add: get_weather_body_def split: sum.splits)

lemma get_weather_hit:
  assumes "cache_get (weather_cache w) (clock e) city = Some v"
  shows "get_weather e city w = (Inr (Some v), log_event (CallGetWeather city) w)"
  using assms by (simp add: get_weather_def log_event_def)

lemma get_weather_miss:
  assumes "cache_get (weather_cache w) (clock e) city = None"
  shows "get_weather e city w =
     (Inr (case try_block (provider e city) of Inr v \<Rightarrow> Some v | Inl x \<Rightarrow> None),
      w\<lparr>trace := trace w @ [CallGetWeather city, HttpGet city],
        weather_cache := cache_set (weather_cache w) (clock e) city
           (case try_block (provider e city) of Inr v \<Rightarrow> Some v | Inl x \<Rightarrow> None)\<rparr>)"
  using assms by (simp add: get_weather_def log_event_def get_weather_body_value Let_def)

lemma cache_get_set:
  "cache_get (cache_set c now key v) t key = (if t < now + TTL then v else None)"
  by (simp add: cache_get_def cache_set_def)

lemma try_block_moscow: "try_block moscow_response = Inr moscow_weather"
  by (simp add: try_block_def raise_for_status_def try_then_def build_weather_def
      data_name_def data_temp_def data_feels_like_def data_description_def data_humidity_def
      data_wind_speed_def moscow_payload_def moscow_weather_def moscow_response_def ascii_def)

lemma try_block_timed_out: "try_block timed_out = Inl (RequestError (ascii ''timed out''))"
  by (simp add: try_block_def timed_out_def)

lemma world0_miss: "cache_get (weather_cache world0) t city = None"
  by (simp add: world0_def cache_get_def)

text \<open>
  C1. When the cache has no unexpired entry for the city, \<open>get_weather\<close> sends exactly
  one request to the provider. If the request succeeds, the result is returned and can
  be read from the cache until the TTL runs out. If it fails, \<open>None\<close> is returned, no
  read of the cache finds a value for the city at any time, and the next call for the
  city sends a request again. (The library writes the \<open>None\<close> under the key; a read
  takes it for a miss.)
\<close>

theorem get_weather_miss_fetches_once:
  assumes "cache_get (weather_cache w) (clock e) city = None"
      and "get_weather e city w = (res, w')"
  shows "trace w' = trace w @ [CallGetWeather city, HttpGet city]
       \<and> (case try_block (provider e city) of
            Inr v \<Rightarrow> res = Inr (Some v)
                   \<and> (\<forall>t. cache_get (weather_cache w') t city
                            = (if t < clock e + 600 then Some v else None))
          | Inl x \<Rightarrow> res = Inr None
                   \<and> (\<forall>t. cache_get (weather_cache w') t city = None)
                   \<and> (\<forall>e2. trace (snd (get_weather e2 city w'))
                            = trace w' @ [CallGetWeather city, HttpGet city]))"
proof (cases "try_block (provider e city)")
  case (Inl x)
  with assms get_weather_miss [OF assms(1)]
  have w': "w' = w\<lparr>trace := trace w @ [CallGetWeather city, HttpGet city],
                   weather_cache := cache_set (weather_cache w) (clock e) city None\<rparr>"
    and res: "res = Inr None"
    by simp_all
  have none: "cache_get (weather_cache w') t city = None" for t
    by (simp add: w' cache_get_set)
  have "trace (snd (get_weather e2 city w')) = trace w' @ [CallGetWeather city, HttpGet city]"
    for e2
    using get_weather_miss [OF none, of e2] by simp
  with Inl res none show ?thesis by (simp add: w')
next
  case (Inr v)
  with assms get_weather_miss [OF assms(1)]
  have w': "w' = w\<lparr>trace := trace w @ [CallGetWeather city, HttpGet city],
                   weather_cache := cache_set (weather_cache w) (clock e) city (Some v)\<rparr>"
    and res: "res = Inr (Some v)"
    by simp_all
  show ?thesis by (simp add: Inr res w' cache_get_set TTL_def)
qed

theorem get_weather_miss_fetches_once_witness:
  "cache_get (weather_cache world0) (clock (env_at 1000 timed_out)) Moscow = None
   \<and> fst (get_weather (env_at 1000 timed_out) Moscow world0) = Inr None
   \<and> trace (snd (get_weather (env_at 1000 timed_out) Moscow world0))
       = [CallGetWeather Moscow, HttpGet Moscow]
   \<and> cache_get (weather_cache (snd (get_weather (env_at 1000 timed_out) Moscow world0)))
        1001 Moscow = None
   \<and> trace (snd (get_weather (env_at 1001 moscow_response) Moscow
                  (snd (get_weather (env_at 1000 timed_out) Moscow world0))))
       = [CallGetWeather Moscow, HttpGet Moscow, CallGetWeather Moscow, HttpGet Moscow]"
proof -
  have tb: "try_block (provider (env_at 1000 timed_out) Moscow)
              = Inl (RequestError (ascii ''timed out''))"
    by (simp add: env_at_def try_block_timed_out)
  have tr0: "trace world0 = []"
    by (simp add: world0_def)
  obtain res w' where run: "get_weather (env_at 1000 timed_out) Moscow world0 = (res, w')"
    by (cases "get_weather (env_at 1000 timed_out) Moscow world0")
  from get_weather_miss_fetches_once [OF world0_miss run] tb tr0 run
  show ?thesis by (simp add: world0_miss)
qed



section \<open>The handler \<open>weather_command\<close>\<close>

lemma reply_and_return_eq:
  "reply_and_return e msg w =
     (if send_fails e then Raised TelegramError else Returned,
      w\<lparr>trace := trace w @ [ReplyText msg (\<not> send_fails e)]\<rparr>)"
  by (simp add: reply_and_return_def reply_text_def log_event_def)

lemma send_and_log_eq:
  "send_and_log e u msg w =
     (Returned,
      if send_fails e \<or> db_commit_fails e
      then w\<lparr>trace := trace w @ [ReplyText msg (\<not> send_fails e)]\<rparr>
      else w\<lparr>trace := trace w @ [ReplyText msg True],
             logs := logs w @ [\<lparr>log_user_id = user_id u, log_command = message_text u,
                                 log_response = msg\<rparr>]\<rparr>)"
  by (simp add: send_and_log_def reply_text_def write_log_def log_event_def)

lemma get_weather_returns: "\<exists>r. fst (get_weather e city w) = Inr r"
  by (cases "cache_get (weather_cache w) (clock e) city")
     (simp_all add: get_weather_miss get_weather_hit)

lemma get_weather_frame:
  "logs (snd (get_weather e city w)) = logs w
   \<and> user_settings (snd (get_weather e city w)) = user_settings w"
  by (cases "cache_get (weather_cache w) (clock e) city")
     (simp_all add: get_weather_miss get_weather_hit log_event_def)

lemma get_weather_trace:
  "trace (snd (get_weather e city w)) =
     trace w @ CallGetWeather city #
       (if cache_get (weather_cache w) (clock e) city = None then [HttpGet city] else [])"
  by (cases "cache_get (weather_cache w) (clock e) city")
     (simp_all add: get_weather_miss get_weather_hit log_event_def)

text \<open>The three ways through the first half of the handler.\<close>

lemma weather_command_query_fails:
  assumes "db_query_fails e"
  shows "weather_command L e u w =
     reply_and_return e MSG_SETTINGS_ERROR (log_event (DbQuery (user_id u)) w)"
  using assms by (simp add: weather_command_def Let_def)

lemma weather_command_no_city:
  assumes "\<not> db_query_fails e"
      and "resolve_city (args u) (user_settings w (user_id u)) = None"
  shows "weather_command L e u w =
     reply_and_return e MSG_SPECIFY_CITY (log_event (DbQuery (user_id u)) w)"
  using assms by (simp add: weather_command_def Let_def log_event_def)

lemma weather_command_city:
  assumes "\<not> db_query_fails e"
      and "resolve_city (args u) (user_settings w (user_id u)) = Some city"
      and "get_weather e city (log_event (DbQuery (user_id u)) w) = (Inr r, w2)"
  shows "weather_command L e u w =
     (case build_message L r of
        Inl x \<Rightarrow> (Raised x, w2)
      | Inr msg \<Rightarrow> send_and_log e u msg w2)"
  using assms by (simp add: weather_command_def Let_def log_event_def)

text \<open>
  C7. When the transport fails to deliver the reply of a weather command, the handler
  writes nothing to the table \<open>logs\<close>: the table is as it was before the command.
\<close>

theorem send_failure_writes_no_log:
  assumes "send_fails e"
  shows "logs (snd (weather_command L e u w)) = logs w"
proof (cases "db_query_fails e")
  case True
  then show ?thesis
    by (simp add: weather_command_query_fails reply_and_return_eq log_event_def)
next
  case False
  show ?thesis
  proof (cases "resolve_city (args u) (user_settings w (user_id u))")
    case None
    with False show ?thesis
      by (simp add: weather_command_no_city reply_and_return_eq log_event_def)
  next
    case (Some city)
    let ?w1 = "log_event (DbQuery (user_id u)) w"
    obtain r where r: "fst (get_weather e city ?w1) = Inr r"
      using get_weather_returns by blast
    then have run: "get_weather e city ?w1 = (Inr r, snd (get_weather e city ?w1))"
      by (simp add: prod_eq_iff)
    have "logs (snd (get_weather e city ?w1)) = logs w"
      by (simp add: get_weather_frame log_event_def)
    with assms show ?thesis
      by (simp add: weather_command_city [OF False Some run] send_and_log_eq split: sum.splits)
  qed
qed

theorem send_failure_writes_no_log_witness:
  "send_fails env_send_fails
   \<and> logs (snd (weather_command lib0 env_send_fails update_moscow world0)) = []"
proof -
  have f: "send_fails env_send_fails"
    by (simp add: env_send_fails_def env_at_def)
  from send_failure_writes_no_log [OF f, of lib0 update_moscow world0] f
  show ?thesis by (simp add: world0_def)
qed

lemma get_weather_env_cong:
  assumes "clock e' = clock e" and "provider e' = provider e"
  shows "get_weather e' city w = get_weather e city w"
  using assms by (simp add: get_weather_def Let_def split: option.splits sum.splits)

lemma new_events_append: "trace w' = trace w @ evs \<Longrightarrow> new_events w w' = evs"
  by (simp add: new_events_def)

text \<open>The run of the handler once a city is resolved, in one equation.\<close>

lemma weather_command_city_run:
  assumes "\<not> db_query_fails e"
      and "resolve_city (args u) (user_settings w (user_id u)) = Some city"
  shows "\<exists>r w2. weather_command L e u w =
            (case build_message L r of
               Inl x \<Rightarrow> (Raised x, w2)
             | Inr msg \<Rightarrow> send_and_log e u msg w2)
          \<and> get_weather e city (log_event (DbQuery (user_id u)) w) = (Inr r, w2)
          \<and> logs w2 = logs w
          \<and> trace w2 = trace w @ DbQuery (user_id u) # CallGetWeather city #
               (if cache_get (weather_cache w) (clock e) city = None then [HttpGet city] else [])"
proof -
  let ?w1 = "log_event (DbQuery (user_id u)) w"
  obtain r where "fst (get_weather e city ?w1) = Inr r"
    using get_weather_returns by blast
  then have run: "get_weather e city ?w1 = (Inr r, snd (get_weather e city ?w1))"
    by (simp add: prod_eq_iff)
  have "logs (snd (get_weather e city ?w1)) = logs w"
    by (simp add: get_weather_frame log_event_def)
  moreover have "trace (snd (get_weather e city ?w1)) =
      trace w @ DbQuery (user_id u) # CallGetWeather city #
        (if cache_get (weather_cache w) (clock e) city = None then [HttpGet city] else [])"
    by (simp add: get_weather_trace log_event_def)
  ultimately show ?thesis
    using weather_command_city [OF assms run] run by blast
qed

text \<open>
  C3 (as the code has it). The handler queries \<open>user_settings\<close> first, for every
  command, whether or not arguments were given. If the query fails, the reply is the
  settings error and no city is resolved. Otherwise, with arguments the city is the
  arguments joined by a space, and the stored value is ignored; without arguments the
  city is the stored value when there is one and it is not empty, and else the reply is
  the prompt and the handler ends.
\<close>

theorem weather_command_resolves_city:
  assumes "weather_command L e u w = (res, w')"
  shows "take 1 (new_events w w') = [DbQuery (user_id u)]
       \<and> (db_query_fails e \<longrightarrow>
            new_events w w' = [DbQuery (user_id u),
                               ReplyText MSG_SETTINGS_ERROR (\<not> send_fails e)])
       \<and> (\<not> db_query_fails e \<and> args u \<noteq> [] \<longrightarrow>
            take 2 (new_events w w') =
              [DbQuery (user_id u), CallGetWeather (join_space (args u))])
       \<and> (\<not> db_query_fails e \<and> args u = [] \<longrightarrow>
            (case user_settings w (user_id u) of
               Some c \<Rightarrow>
                 if c \<noteq> []
                 then take 2 (new_events w w') = [DbQuery (user_id u), CallGetWeather c]
                 else new_events w w' = [DbQuery (user_id u),
                                         ReplyText MSG_SPECIFY_CITY (\<not> send_fails e)]
             | None \<Rightarrow>
                 new_events w w' = [DbQuery (user_id u),
                                    ReplyText MSG_SPECIFY_CITY (\<not> send_fails e)]))"
proof (cases "db_query_fails e")
  case True
  with assms have "trace w' = trace w @ [DbQuery (user_id u),
                                        ReplyText MSG_SETTINGS_ERROR (\<not> send_fails e)]"
    by (auto simp: weather_command_query_fails reply_and_return_eq log_event_def)
  from new_events_append [OF this] True show ?thesis
    by simp
next
  case False
  show ?thesis
  proof (cases "resolve_city (args u) (user_settings w (user_id u))")
    case None
    with False assms have "trace w' = trace w @ [DbQuery (user_id u),
                                        ReplyText MSG_SPECIFY_CITY (\<not> send_fails e)]"
      by (auto simp: weather_command_no_city reply_and_return_eq log_event_def)
    from new_events_append [OF this] False None show ?thesis
      by (auto simp: resolve_city_def split: option.splits if_splits)
  next
    case (Some city)
    from weather_command_city_run [OF False Some, of L]
    obtain r w2 where cmd: "weather_command L e u w =
            (case build_message L r of
               Inl x \<Rightarrow> (Raised x, w2)
             | Inr m \<Rightarrow> send_and_log e u m w2)"
      and tr: "trace w2 = trace w @ DbQuery (user_id u) # CallGetWeather city #
               (if cache_get (weather_cache w) (clock e) city = None then [HttpGet city] else [])"
      by blast
    have "\<exists>rest. trace w' = trace w @ DbQuery (user_id u) # CallGetWeather city # rest"
    proof (cases "build_message L r")
      case (Inl x)
      with cmd assms have "w' = w2" by simp
      with tr show ?thesis by simp
    next
      case (Inr m)
      with cmd assms have "trace w' = trace w2 @ [ReplyText m (\<not> send_fails e)]"
        by (auto simp: send_and_log_eq split: if_splits)
      with tr show ?thesis by simp
    qed
    then obtain rest
      where "trace w' = trace w @ DbQuery (user_id u) # CallGetWeather city # rest"
      by blast
    from new_events_append [OF this]
    have "take 2 (new_events w w') = [DbQuery (user_id u), CallGetWeather city]"
      and "take 1 (new_events w w') = [DbQuery (user_id u)]"
      by simp_all
    with False Some show ?thesis
      by (auto simp: resolve_city_def split: option.splits if_splits)
  qed
qed

text \<open>
  C4. For a user with no stored city, a weather command without arguments makes no call
  of \<open>get_weather\<close> and sends no request to the provider; cache and log table stay
  as they are. The reply is the prompt that asks for a city (given that the query of
  \<open>user_settings\<close> itself succeeds; a failed query is answered by the settings error).
\<close>

theorem weather_command_prompt_without_city:
  assumes "args u = []"
      and "user_settings w (user_id u) = None"
      and "weather_command L e u w = (res, w')"
  shows "(\<forall>c. CallGetWeather c \<notin> set (new_events w w') \<and> HttpGet c \<notin> set (new_events w w'))
       \<and> weather_cache w' = weather_cache w
       \<and> logs w' = logs w
       \<and> (\<not> db_query_fails e \<longrightarrow>
            new_events w w' = [DbQuery (user_id u),
                               ReplyText MSG_SPECIFY_CITY (\<not> send_fails e)]
            \<and> res = (if send_fails e then Raised TelegramError else Returned))"
proof (cases "db_query_fails e")
  case True
  with assms(3) have w': "w' = w\<lparr>trace := trace w @ [DbQuery (user_id u),
                                        ReplyText MSG_SETTINGS_ERROR (\<not> send_fails e)]\<rparr>"
    by (auto simp: weather_command_query_fails reply_and_return_eq log_event_def)
  with True show ?thesis
    by (simp add: new_events_def)
next
  case False
  from assms(1,2) have "resolve_city (args u) (user_settings w (user_id u)) = None"
    by (simp add: resolve_city_def)
  with False assms(3) have w': "w' = w\<lparr>trace := trace w @ [DbQuery (user_id u),
                                        ReplyText MSG_SPECIFY_CITY (\<not> send_fails e)]\<rparr>"
    and "res = (if send_fails e then Raised TelegramError else Returned)"
    by (auto simp: weather_command_no_city reply_and_return_eq log_event_def)
  then show ?thesis
    by (simp add: new_events_def)
qed

text \<open>
  C6. When the request to the provider fails, with whatever exception, the reply is the
  fixed text of line 146, and the row written to \<open>logs\<close> (written when the reply was
  delivered and the commit succeeds) has that same text as its response. Neither
  depends on the exception or on the provider's error text.
\<close>

theorem failed_fetch_generic_reply:
  assumes "\<not> db_query_fails e"
      and "resolve_city (args u) (user_settings w (user_id u)) = Some city"
      and "cache_get (weather_cache w) (clock e) city = None"
      and "try_block (provider e city) = Inl x"
      and "weather_command L e u w = (res, w')"
  shows "res = Returned
       \<and> new_events w w' = [DbQuery (user_id u), CallGetWeather city, HttpGet city,
                            ReplyText MSG_NO_WEATHER (\<not> send_fails e)]
       \<and> logs w' = (if send_fails e \<or> db_commit_fails e then logs w
                    else logs w @ [\<lparr>log_user_id = user_id u, log_command = message_text u,
                                    log_response = MSG_NO_WEATHER\<rparr>])"
proof -
  let ?w1 = "log_event (DbQuery (user_id u)) w"
  have "cache_get (weather_cache ?w1) (clock e) city = None"
    using assms(3) by (simp add: log_event_def)
  from get_weather_miss [OF this] assms(4)
  have run: "get_weather e city ?w1 =
      (Inr None, ?w1\<lparr>trace := trace ?w1 @ [CallGetWeather city, HttpGet city],
                     weather_cache := cache_set (weather_cache ?w1) (clock e) city None\<rparr>)"
    by simp
  from weather_command_city [OF assms(1,2) run, of L] assms(5)
  show ?thesis
    by (auto simp: build_message_def send_and_log_eq new_events_def log_event_def)
qed

lemma weather_command_commit_flag:
  "fst (weather_command L (e\<lparr>db_commit_fails := b\<rparr>) u w) = fst (weather_command L e u w)
   \<and> trace (snd (weather_command L (e\<lparr>db_commit_fails := b\<rparr>) u w))
       = trace (snd (weather_command L e u w))"
proof (cases "db_query_fails e")
  case True
  then show ?thesis
    by (simp add: weather_command_query_fails reply_and_return_eq)
next
  case False
  show ?thesis
  proof (cases "resolve_city (args u) (user_settings w (user_id u))")
    case None
    with False show ?thesis
      by (simp add: weather_command_no_city reply_and_return_eq)
  next
    case (Some city)
    let ?e = "e\<lparr>db_commit_fails := b\<rparr>"
    from weather_command_city_run [OF False Some, of L]
    obtain r w2 where cmd: "weather_command L e u w =
            (case build_message L r of
               Inl x \<Rightarrow> (Raised x, w2)
             | Inr m \<Rightarrow> send_and_log e u m w2)"
      and run: "get_weather e city (log_event (DbQuery (user_id u)) w) = (Inr r, w2)"
      by blast
    have "get_weather ?e city (log_event (DbQuery (user_id u)) w) = (Inr r, w2)"
      using run get_weather_env_cong [of ?e e city "log_event (DbQuery (user_id u)) w"]
      by simp
    from weather_command_city [OF _ _ this, where L = L] False Some
    have cmd': "weather_command L ?e u w =
            (case build_message L r of
               Inl x \<Rightarrow> (Raised x, w2)
             | Inr m \<Rightarrow> send_and_log ?e u m w2)"
      by simp
    show ?thesis
      unfolding cmd cmd' by (cases "build_message L r") (simp_all add: send_and_log_eq)
  qed
qed

lemma weather_command_delivered_returns:
  assumes "ReplyText msg True \<in> set (new_events w (snd (weather_command L e u w)))"
  shows "fst (weather_command L e u w) = Returned"
proof (cases "db_query_fails e")
  case True
  with assms show ?thesis
    by (simp add: weather_command_query_fails reply_and_return_eq log_event_def new_events_def)
next
  case False
  show ?thesis
  proof (cases "resolve_city (args u) (user_settings w (user_id u))")
    case None
    with False assms show ?thesis
      by (simp add: weather_command_no_city reply_and_return_eq log_event_def new_events_def)
  next
    case (Some city)
    from weather_command_city_run [OF False Some, of L]
    obtain r w2 where cmd: "weather_command L e u w =
            (case build_message L r of
               Inl x \<Rightarrow> (Raised x, w2)
             | Inr m \<Rightarrow> send_and_log e u m w2)"
      and tr: "trace w2 = trace w @ DbQuery (user_id u) # CallGetWeather city #
               (if cache_get (weather_cache w) (clock e) city = None then [HttpGet city] else [])"
      by blast
    show ?thesis
    proof (cases "build_message L r")
      case (Inl x)
      with assms tr show ?thesis
        unfolding cmd by (simp add: new_events_def split: if_splits)
    next
      case (Inr m)
      then show ?thesis
        unfolding cmd by (simp add: send_and_log_eq)
    qed
  qed
qed

lemma weather_command_commit_fails_logs:
  assumes "db_commit_fails e"
  shows "logs (snd (weather_command L e u w)) = logs w"
proof (cases "db_query_fails e")
  case True
  then show ?thesis
    by (simp add: weather_command_query_fails reply_and_return_eq log_event_def)
next
  case False
  show ?thesis
  proof (cases "resolve_city (args u) (user_settings w (user_id u))")
    case None
    with False show ?thesis
      by (simp add: weather_command_no_city reply_and_return_eq log_event_def)
  next
    case (Some city)
    from weather_command_city_run [OF False Some, of L]
    obtain r w2 where cmd: "weather_command L e u w =
            (case build_message L r of
               Inl x \<Rightarrow> (Raised x, w2)
             | Inr m \<Rightarrow> send_and_log e u m w2)"
      and lg: "logs w2 = logs w"
      by blast
    show ?thesis
      unfolding cmd using assms lg
      by (cases "build_message L r") (simp_all add: send_and_log_eq)
  qed
qed

text \<open>
  C8. When the reply of a weather command was delivered and the write to \<open>logs\<close>
  fails, the handler returns normally (nothing is raised to the transport), the table
  is unchanged, and the trace, with the reply in it, is the one of the run in which the
  write succeeds.
\<close>

theorem log_failure_is_silent:
  assumes "db_commit_fails e"
      and "weather_command L e u w = (res, w')"
      and "ReplyText msg True \<in> set (new_events w w')"
  shows "res = Returned
       \<and> logs w' = logs w
       \<and> fst (weather_command L (e\<lparr>db_commit_fails := False\<rparr>) u w) = Returned
       \<and> trace (snd (weather_command L (e\<lparr>db_commit_fails := False\<rparr>) u w)) = trace w'"
proof -
  from assms(2) have w': "w' = snd (weather_command L e u w)"
    and res: "res = fst (weather_command L e u w)"
    by simp_all
  from assms(3) have "res = Returned"
    unfolding w' res by (rule weather_command_delivered_returns)
  moreover have "logs w' = logs w"
    unfolding w' using assms(1) by (rule weather_command_commit_fails_logs)
  moreover note weather_command_commit_flag [where L = L and e = e and b = False and u = u and w = w]
  ultimately show ?thesis
    by (simp add: w' res)
qed

section \<open>The provider's outcomes\<close>

lemma try_block_response:
  "try_block (Response st txt b) =
     (if 200 \<le> st \<and> st < 300
      then (case b of None \<Rightarrow> Inl JSONDecodeError | Some d \<Rightarrow> build_weather d)
      else Inl (HTTPStatusError st txt))"
  by (simp add: try_block_def raise_for_status_def try_then_def split: option.splits)

text \<open>The reads of the source find exactly what stands at the paths.\<close>

lemma field_at_key:
  "field_at d (Key k # p) =
     (case getitem d (ascii k) of Inl x \<Rightarrow> None | Inr v \<Rightarrow> field_at v p)"
  by (cases d) (simp_all split: option.splits)

lemma field_at_first_key:
  "field_at d (First # Key k # p) =
     (case getitem0 d of Inl x \<Rightarrow> None | Inr v \<Rightarrow> field_at v (Key k # p))"
proof (cases d)
  case (JArr xs)
  then show ?thesis by (cases xs) simp_all
next
  case (JStr s)
  then show ?thesis by (cases s) simp_all
qed simp_all

lemma data_fields:
  "field_at d [Key ''name''] = (case data_name d of Inl x \<Rightarrow> None | Inr v \<Rightarrow> Some v)"
  "field_at d [Key ''main'', Key ''temp'']
     = (case data_temp d of Inl x \<Rightarrow> None | Inr v \<Rightarrow> Some v)"
  "field_at d [Key ''main'', Key ''feels_like'']
     = (case data_feels_like d of Inl x \<Rightarrow> None | Inr v \<Rightarrow> Some v)"
  "field_at d [Key ''weather'', First, Key ''description'']
     = (case data_description d of Inl x \<Rightarrow> None | Inr v \<Rightarrow> Some v)"
  "field_at d [Key ''main'', Key ''humidity'']
     = (case data_humidity d of Inl x \<Rightarrow> None | Inr v \<Rightarrow> Some v)"
  "field_at d [Key ''wind'', Key ''speed'']
     = (case data_wind_speed d of Inl x \<Rightarrow> None | Inr v \<Rightarrow> Some v)"
  by (simp_all add: field_at_key field_at_first_key data_name_def data_temp_def
      data_feels_like_def data_description_def data_humidity_def data_wind_speed_def
      try_then_def split: sum.splits)

lemma build_weather_snapshot:
  "(case build_weather d of Inl x \<Rightarrow> None | Inr v \<Rightarrow> Some v) = expected_snapshot d"
  by (auto simp: expected_snapshot_def expected_fields_def data_fields build_weather_def
      try_then_def split: sum.splits)

text \<open>
  C10. \<open>get_weather\<close> always returns a value and never lets an exception out,
  whatever the city and whatever the provider does: \<open>None\<close> when no response comes
  (network error, timeout), when the status is outside 200..299, when the body is not
  JSON, and when the payload lacks one of the six fields name, main.temp,
  main.feels_like, weather[0].description, main.humidity, wind.speed; the dict of the
  six values standing at these paths when the payload has them all.
\<close>

theorem get_weather_never_raises:
  "(\<exists>r w'. get_weather e city w = (Inr r, w'))
   \<and> get_weather_body (RequestFailed m) = Inr None
   \<and> (\<not> (200 \<le> st \<and> st < 300) \<longrightarrow> get_weather_body (Response st body b) = Inr None)
   \<and> get_weather_body (Response st body None) = Inr None
   \<and> (200 \<le> st \<and> st < 300 \<longrightarrow>
        get_weather_body (Response st body (Some d)) =
          Inr (if list_ex (\<lambda>p. field_at d p = None) expected_fields then None
               else Some \<lparr>gorod = the (field_at d [Key ''name'']),
                   temperatura = the (field_at d [Key ''main'', Key ''temp'']),
                   oshchushchaetsya_kak = the (field_at d [Key ''main'', Key ''feels_like'']),
                   opisanie = the (field_at d [Key ''weather'', First, Key ''description'']),
                   vlazhnost = the (field_at d [Key ''main'', Key ''humidity'']),
                   skorost_vetra = the (field_at d [Key ''wind'', Key ''speed''])\<rparr>))"
proof -
  obtain r where "fst (get_weather e city w) = Inr r"
    using get_weather_returns by blast
  then have "get_weather e city w = (Inr r, snd (get_weather e city w))"
    by (simp add: prod_eq_iff)
  then have 1: "\<exists>r w'. get_weather e city w = (Inr r, w')"
    by blast
  have 2: "get_weather_body (RequestFailed m) = Inr None"
    by (simp add: get_weather_body_value try_block_def)
  have 3: "get_weather_body (Response st body b) = Inr None" if "\<not> (200 \<le> st \<and> st < 300)"
    using that by (auto simp: get_weather_body_value try_block_response)
  have 4: "get_weather_body (Response st body None) = Inr None"
    by (simp add: get_weather_body_value try_block_response)
  have 5: "get_weather_body (Response st body (Some d)) = Inr (expected_snapshot d)"
    if "200 \<le> st \<and> st < 300"
    using that by (simp add: get_weather_body_value try_block_response build_weather_snapshot)
  from 1 2 3 4 5 show ?thesis
    unfolding expected_snapshot_def by blast
qed

section \<open>The handlers \<open>set_city\<close> and \<open>get_city\<close>\<close>

text \<open>
  C5. After a \<open>/setcity\<close> that succeeded, the table holds for the user exactly the
  city given (the arguments joined by a space), and \<open>/getcity\<close> replies with it. A
  second \<open>/setcity\<close> replaces the city: the table is what the last one alone would
  have made of the original table at that user. Repeating the same \<open>/setcity\<close>
  changes nothing. The table is a map, so a user has at most one city.
\<close>

theorem set_city_then_get_city:
  assumes "args u \<noteq> []"
      and "\<not> db_query_fails e"
      and "\<not> db_commit_fails e"
      and "set_city e u w = (res, w1)"
  shows "user_settings w1 = (user_settings w)(user_id u \<mapsto> join_space (args u))
       \<and> (\<forall>e2 u2. user_id u2 = user_id u \<and> \<not> db_query_fails e2 \<longrightarrow>
            new_events w1 (snd (get_city e2 u2 w1)) =
              [DbQuery (user_id u),
               ReplyText (MSG_YOUR_CITY @ join_space (args u)) (\<not> send_fails e2)])
       \<and> (\<forall>e3 u3. user_id u3 = user_id u \<and> args u3 \<noteq> []
                   \<and> \<not> db_query_fails e3 \<and> \<not> db_commit_fails e3 \<longrightarrow>
            user_settings (snd (set_city e3 u3 w1)) =
              (user_settings w)(user_id u \<mapsto> join_space (args u3)))
       \<and> user_settings (snd (set_city e u w1)) = user_settings w1"
proof -
  from assms have w1: "w1 = w\<lparr>trace := trace w @ [DbQuery (user_id u),
            ReplyText (MSG_CITY_SET @ join_space (args u)) (\<not> send_fails e)],
        user_settings := (user_settings w)(user_id u \<mapsto> join_space (args u))\<rparr>"
    by (auto simp: set_city_def Let_def reply_and_return_eq log_event_def)
  have set_ok: "user_settings (snd (set_city e' u' w'')) =
      (user_settings w'')(user_id u' \<mapsto> join_space (args u'))"
    if "args u' \<noteq> []" "\<not> db_query_fails e'" "\<not> db_commit_fails e'" for e' u' w''
    using that by (simp add: set_city_def Let_def reply_and_return_eq log_event_def)
  have get_ok: "new_events w1 (snd (get_city e2 u2 w1)) =
              [DbQuery (user_id u),
               ReplyText (MSG_YOUR_CITY @ join_space (args u)) (\<not> send_fails e2)]"
    if "user_id u2 = user_id u" "\<not> db_query_fails e2" for e2 u2
    using that
    by (simp add: get_city_def Let_def reply_and_return_eq log_event_def new_events_def w1)
  have "user_settings (snd (set_city e3 u3 w1)) =
              (user_settings w)(user_id u \<mapsto> join_space (args u3))"
    if "user_id u3 = user_id u" "args u3 \<noteq> []" "\<not> db_query_fails e3" "\<not> db_commit_fails e3"
    for e3 u3
    using that set_ok [of u3 e3 w1] by (simp add: w1)
  moreover have "user_settings (snd (set_city e u w1)) = user_settings w1"
    using assms set_ok [of u e w1] by (simp add: w1)
  ultimately show ?thesis
    using get_ok by (simp add: w1)
qed

section \<open>The scenario of the specification\<close>

lemma str_int_5: "str_int 5 = [53]" by code_simp
lemma str_int_3: "str_int 3 = [51]" by code_simp
lemma str_int_40: "str_int 40 = [52, 48]" by code_simp
lemma str_int_2: "str_int 2 = [50]" by code_simp

lemma capitalize_clear: "capitalize L (ascii ''clear'') = ascii ''Clear''"
  by (simp add: capitalize_def ascii_def ascii_upper_def ascii_lower_def)

lemma format_weather_moscow: "format_weather L moscow_weather = Inr moscow_reply"
  by (simp add: format_weather_def moscow_weather_def str_int_5 str_int_3 str_int_40 str_int_2
      capitalize_clear)
     (simp add: ascii_def moscow_reply_def TPL_CITY_def TPL_TEMP_def TPL_FEELS_def TPL_DESCR_def
      TPL_HUMID_def TPL_WIND_def TPL_END_def)

lemma build_message_moscow: "build_message L (Some moscow_weather) = Inr moscow_reply"
  by (simp add: build_message_def format_weather_moscow) (simp add: moscow_weather_def ascii_def)

lemma contains_append: "contains (a @ sub @ b) sub"
proof (induction a)
  case Nil
  have "startswith (sub @ b) sub" by (induction sub) simp_all
  then show ?case by (cases "sub @ b") auto
next
  case (Cons x a)
  then show ?case by simp
qed

lemma startswith_iff: "startswith s p \<longleftrightarrow> (\<exists>b. s = p @ b)"
  by (induction s p rule: startswith.induct) auto

lemma contains_iff: "contains s sub \<longleftrightarrow> (\<exists>a b. s = a @ sub @ b)"
proof
  show "contains s sub \<Longrightarrow> \<exists>a b. s = a @ sub @ b"
  proof (induction s)
    case Nil
    then show ?case by simp
  next
    case (Cons c cs)
    show ?case
    proof (cases "startswith (c # cs) sub")
      case True
      then obtain b where "c # cs = sub @ b" by (auto simp: startswith_iff)
      then have "c # cs = [] @ sub @ b" by simp
      then show ?thesis by blast
    next
      case False
      with Cons.prems have "contains cs sub" by simp
      with Cons.IH obtain a b where "cs = a @ sub @ b" by blast
      then have "c # cs = (c # a) @ sub @ b" by simp
      then show ?thesis by blast
    qed
  qed
  show "\<exists>a b. s = a @ sub @ b \<Longrightarrow> contains s sub"
    by (auto simp: contains_append)
qed

lemma moscow_reply_contains:
  "contains moscow_reply (ascii ''Moscow'') \<and> contains moscow_reply (ascii ''5'')
   \<and> contains moscow_reply (ascii ''3'') \<and> contains moscow_reply (ascii ''Clear'')
   \<and> contains moscow_reply (ascii ''40'') \<and> contains moscow_reply (ascii ''2'')"
  by (simp add: moscow_reply_def ascii_def)

lemma moscow_reply_lacks: "\<not> contains moscow_reply (ascii ''clear'')"
  by (simp add: moscow_reply_def ascii_def)

text \<open>
  C9 (as the code has it). For \<open>/weather Moscow\<close>, the cache holding nothing for
  Moscow and the provider answering with name "Moscow", temp 5, feels_like 3,
  description "clear", humidity 40 and wind speed 2, the reply is the text
  \<open>moscow_reply\<close>. It includes \<open>Moscow\<close>, \<open>5\<close>, \<open>3\<close>, \<open>40\<close>, \<open>2\<close> and the
  description capitalised, \<open>Clear\<close>. When the reply is delivered and the commit
  succeeds, one row is appended to \<open>logs\<close> whose response is exactly that text.
\<close>

theorem weather_moscow_scenario:
  assumes "provider e Moscow = moscow_response"
      and "\<not> db_query_fails e" and "\<not> send_fails e" and "\<not> db_commit_fails e"
      and "cache_get (weather_cache w) (clock e) Moscow = None"
      and "args u = [Moscow]"
      and "weather_command L e u w = (res, w')"
  shows "res = Returned
       \<and> new_events w w' = [DbQuery (user_id u), CallGetWeather Moscow, HttpGet Moscow,
                            ReplyText moscow_reply True]
       \<and> logs w' = logs w @ [\<lparr>log_user_id = user_id u, log_command = message_text u,
                                log_response = moscow_reply\<rparr>]
       \<and> contains moscow_reply (ascii ''Moscow'') \<and> contains moscow_reply (ascii ''5'')
       \<and> contains moscow_reply (ascii ''3'') \<and> contains moscow_reply (ascii ''Clear'')
       \<and> contains moscow_reply (ascii ''40'') \<and> contains moscow_reply (ascii ''2'')"
proof -
  let ?w1 = "log_event (DbQuery (user_id u)) w"
  have city: "resolve_city (args u) (user_settings w (user_id u)) = Some Moscow"
    using assms(6) by (simp add: resolve_city_def)
  have "cache_get (weather_cache ?w1) (clock e) Moscow = None"
    using assms(5) by (simp add: log_event_def)
  from get_weather_miss [OF this] assms(1)
  have run: "get_weather e Moscow ?w1 =
      (Inr (Some moscow_weather),
       ?w1\<lparr>trace := trace ?w1 @ [CallGetWeather Moscow, HttpGet Moscow],
            weather_cache := cache_set (weather_cache ?w1) (clock e) Moscow
                               (Some moscow_weather)\<rparr>)"
    by (simp add: try_block_moscow)
  from weather_command_city [OF assms(2) city run, of L] assms(3,4,7)
  have "res = Returned"
    and "new_events w w' = [DbQuery (user_id u), CallGetWeather Moscow, HttpGet Moscow,
                            ReplyText moscow_reply True]"
    and "logs w' = logs w @ [\<lparr>log_user_id = user_id u, log_command = message_text u,
                                log_response = moscow_reply\<rparr>]"
    by (auto simp: build_message_moscow send_and_log_eq new_events_def log_event_def)
  with moscow_reply_contains show ?thesis
    by simp
qed

lemma env_at_simps:
  "clock (env_at t out) = t" "provider (env_at t out) c = out"
  "\<not> db_query_fails (env_at t out)" "\<not> db_commit_fails (env_at t out)"
  "\<not> send_fails (env_at t out)"
  by (simp_all add: env_at_def)

lemma update_moscow_simps:
  "user_id update_moscow = 42" "args update_moscow = [Moscow]"
  "message_text update_moscow = ascii ''/weather Moscow''"
  by (simp_all add: update_moscow_def Moscow_def)

lemma world0_simps:
  "trace world0 = []" "logs world0 = []" "user_settings world0 uid = None"
  by (simp_all add: world0_def)

theorem weather_moscow_scenario_witness:
  "fst (weather_command lib0 (env_at 1000 moscow_response) update_moscow world0) = Returned
   \<and> trace (snd (weather_command lib0 (env_at 1000 moscow_response) update_moscow world0))
       = [DbQuery 42, CallGetWeather Moscow, HttpGet Moscow, ReplyText moscow_reply True]
   \<and> logs (snd (weather_command lib0 (env_at 1000 moscow_response) update_moscow world0))
       = [\<lparr>log_user_id = 42, log_command = ascii ''/weather Moscow'',
           log_response = moscow_reply\<rparr>]"
proof -
  let ?e = "env_at 1000 moscow_response"
  have run: "weather_command lib0 ?e update_moscow world0 =
      (fst (weather_command lib0 ?e update_moscow world0),
       snd (weather_command lib0 ?e update_moscow world0))"
    by simp
  from weather_moscow_scenario [OF env_at_simps(2-3) env_at_simps(5) env_at_simps(4)
      world0_miss update_moscow_simps(2) run]
  show ?thesis
    by (simp add: new_events_def world0_simps update_moscow_simps)
qed

lemma moscow_run_trace:
  "trace (snd (weather_command lib0 (env_at 1000 moscow_response) update_moscow world0))
       = [DbQuery 42, CallGetWeather Moscow, HttpGet Moscow, ReplyText moscow_reply True]"
proof -
  let ?e = "env_at 1000 moscow_response"
  let ?w1 = "log_event (DbQuery 42) world0"
  have city: "resolve_city (args update_moscow) (user_settings world0 (user_id update_moscow))
      = Some Moscow"
    by (simp add: resolve_city_def update_moscow_simps)
  have "cache_get (weather_cache ?w1) (clock ?e) Moscow = None"
    by (simp add: log_event_def world0_miss)
  from get_weather_miss [OF this]
  have run: "get_weather ?e Moscow (log_event (DbQuery (user_id update_moscow)) world0) =
      (Inr (Some moscow_weather),
       ?w1\<lparr>trace := trace ?w1 @ [CallGetWeather Moscow, HttpGet Moscow],
            weather_cache := cache_set (weather_cache ?w1) (clock ?e) Moscow
                               (Some moscow_weather)\<rparr>)"
    by (simp add: try_block_moscow env_at_simps update_moscow_simps)
  from weather_command_city [OF env_at_simps(3) city run, of lib0]
  show ?thesis
    by (simp add: build_message_moscow send_and_log_eq env_at_simps log_event_def world0_simps)
qed

text \<open>
  The reply of the scenario does not include the description as the provider spelled it:
  \<open>clear\<close> is not a substring of it.
\<close>

theorem moscow_reply_capitalizes_description:
  "trace (snd (weather_command lib0 (env_at 1000 moscow_response) update_moscow world0))
       = [DbQuery 42, CallGetWeather Moscow, HttpGet Moscow, ReplyText moscow_reply True]
   \<and> \<not> contains moscow_reply (ascii ''clear'')"
  using moscow_run_trace moscow_reply_lacks by simp

section \<open>Runs on the sample inputs\<close>

lemma pair_eq: "f = (fst f, snd f)"
  by simp

theorem weather_command_resolves_city_witness:
  "\<not> db_query_fails (env_at 1000 moscow_response) \<and> args update_moscow \<noteq> []
   \<and> take 2 (new_events world0
        (snd (weather_command lib0 (env_at 1000 moscow_response) update_moscow world0)))
       = [DbQuery 42, CallGetWeather Moscow]
   \<and> db_query_fails env_query_fails
   \<and> new_events world0 (snd (weather_command lib0 env_query_fails update_moscow world0))
       = [DbQuery 42, ReplyText MSG_SETTINGS_ERROR True]
   \<and> args update_bare = [] \<and> user_settings world0 (user_id update_bare) = None
   \<and> new_events world0
        (snd (weather_command lib0 (env_at 1000 moscow_response) update_bare world0))
       = [DbQuery 42, ReplyText MSG_SPECIFY_CITY True]"
proof -
  have q: "db_query_fails env_query_fails" "\<not> send_fails env_query_fails"
    by (simp_all add: env_query_fails_def env_at_def)
  have b: "args update_bare = []" "user_id update_bare = 42"
    by (simp_all add: update_bare_def)
  from weather_command_resolves_city
         [OF pair_eq [of "weather_command lib0 (env_at 1000 moscow_response) update_moscow world0"]]
       weather_command_resolves_city
         [OF pair_eq [of "weather_command lib0 env_query_fails update_moscow world0"]]
       weather_command_resolves_city
         [OF pair_eq [of "weather_command lib0 (env_at 1000 moscow_response) update_bare world0"]]
  show ?thesis
    by (simp add: env_at_simps update_moscow_simps world0_simps q b Moscow_def)
qed

text \<open>
  The settings are consulted also when arguments are given: with the argument
  \<open>Moscow\<close> the first thing the handler does is the query, and when that query
  fails the command ends with the settings error, no city resolved.
\<close>

theorem weather_command_queries_settings_first:
  "args update_moscow \<noteq> []
   \<and> hd (new_events world0
        (snd (weather_command lib0 (env_at 1000 moscow_response) update_moscow world0)))
       = DbQuery 42
   \<and> weather_command lib0 env_query_fails update_moscow world0
       = (Returned, world0\<lparr>trace := [DbQuery 42, ReplyText MSG_SETTINGS_ERROR True]\<rparr>)"
proof -
  have q: "db_query_fails env_query_fails" "\<not> send_fails env_query_fails"
    by (simp_all add: env_query_fails_def env_at_def)
  have "trace (snd (weather_command lib0 (env_at 1000 moscow_response) update_moscow world0))
       = [DbQuery 42, CallGetWeather Moscow, HttpGet Moscow, ReplyText moscow_reply True]"
    using moscow_run_trace .
  then have "hd (new_events world0
        (snd (weather_command lib0 (env_at 1000 moscow_response) update_moscow world0)))
       = DbQuery 42"
    by (simp add: new_events_def world0_simps)
  moreover have "weather_command lib0 env_query_fails update_moscow world0
       = (Returned, world0\<lparr>trace := [DbQuery 42, ReplyText MSG_SETTINGS_ERROR True]\<rparr>)"
    by (simp add: weather_command_query_fails [OF q(1)] reply_and_return_eq q log_event_def
        update_moscow_simps world0_simps)
  ultimately show ?thesis
    by (simp add: update_moscow_simps)
qed

theorem weather_command_prompt_without_city_witness:
  "args update_bare = [] \<and> user_settings world0 (user_id update_bare) = None
   \<and> weather_command lib0 (env_at 1000 moscow_response) update_bare world0
       = (Returned, world0\<lparr>trace := [DbQuery 42, ReplyText MSG_SPECIFY_CITY True]\<rparr>)"
proof -
  have b: "args update_bare = []" "user_id update_bare = 42"
    by (simp_all add: update_bare_def)
  have n: "user_settings world0 (user_id update_bare) = None"
    by (rule world0_simps)
  have eq: "w' = world0\<lparr>trace := [DbQuery 42, ReplyText MSG_SPECIFY_CITY True]\<rparr>"
    if "weather_cache w' = weather_cache world0" "logs w' = logs world0"
       "user_settings w' = user_settings world0"
       "trace w' = [DbQuery 42, ReplyText MSG_SPECIFY_CITY True]" for w'
    using that by (cases w') (simp add: world0_def)
  have us: "user_settings (snd (weather_command lib0 (env_at 1000 moscow_response)
                                 update_bare world0)) = user_settings world0"
    by (simp add: weather_command_no_city env_at_simps resolve_city_def b world0_simps
        reply_and_return_eq log_event_def)
  from weather_command_prompt_without_city [OF b(1) n
           pair_eq [of "weather_command lib0 (env_at 1000 moscow_response) update_bare world0"]] us
  show ?thesis
    by (simp add: prod_eq_iff env_at_simps b world0_simps new_events_def eq)
qed

theorem failed_fetch_generic_reply_witness:
  "try_block (provider (env_at 1000 not_found) Moscow)
       = Inl (HTTPStatusError 404 (ascii ''city not found''))
   \<and> fst (weather_command lib0 (env_at 1000 not_found) update_moscow world0) = Returned
   \<and> new_events world0 (snd (weather_command lib0 (env_at 1000 not_found) update_moscow world0))
       = [DbQuery 42, CallGetWeather Moscow, HttpGet Moscow, ReplyText MSG_NO_WEATHER True]
   \<and> logs (snd (weather_command lib0 (env_at 1000 not_found) update_moscow world0))
       = [\<lparr>log_user_id = 42, log_command = ascii ''/weather Moscow'',
           log_response = MSG_NO_WEATHER\<rparr>]
   \<and> \<not> contains MSG_NO_WEATHER (ascii ''city not found'')"
proof -
  let ?e = "env_at 1000 not_found"
  have tb: "try_block (provider ?e Moscow) = Inl (HTTPStatusError 404 (ascii ''city not found''))"
    by (simp add: env_at_simps not_found_def try_block_response)
  have city: "resolve_city (args update_moscow) (user_settings world0 (user_id update_moscow))
      = Some Moscow"
    by (simp add: resolve_city_def update_moscow_simps)
  have lacks: "\<not> contains MSG_NO_WEATHER (ascii ''city not found'')"
    by (simp add: MSG_NO_WEATHER_def ascii_def)
  from failed_fetch_generic_reply [OF env_at_simps(3) city world0_miss tb
          pair_eq [of "weather_command lib0 ?e update_moscow world0"]]
    tb lacks
  show ?thesis
    by (simp add: env_at_simps update_moscow_simps world0_simps)
qed

theorem log_failure_is_silent_witness:
  "db_commit_fails env_commit_fails
   \<and> ReplyText moscow_reply True
        \<in> set (new_events world0 (snd (weather_command lib0 env_commit_fails update_moscow world0)))
   \<and> fst (weather_command lib0 env_commit_fails update_moscow world0) = Returned
   \<and> logs (snd (weather_command lib0 env_commit_fails update_moscow world0)) = []
   \<and> trace (snd (weather_command lib0 env_commit_fails update_moscow world0))
       = [DbQuery 42, CallGetWeather Moscow, HttpGet Moscow, ReplyText moscow_reply True]"
proof -
  have c: "db_commit_fails env_commit_fails"
    by (simp add: env_commit_fails_def env_at_def)
  have ok: "env_commit_fails\<lparr>db_commit_fails := False\<rparr> = env_at 1000 moscow_response"
    by (simp add: env_commit_fails_def env_at_def)
  have tr: "trace (snd (weather_command lib0 env_commit_fails update_moscow world0))
       = [DbQuery 42, CallGetWeather Moscow, HttpGet Moscow, ReplyText moscow_reply True]"
    using weather_command_commit_flag [where L = lib0 and e = env_commit_fails and b = False
        and u = update_moscow and w = world0]
    by (simp add: ok moscow_run_trace)
  then have sent: "ReplyText moscow_reply True
        \<in> set (new_events world0 (snd (weather_command lib0 env_commit_fails update_moscow world0)))"
    by (simp add: new_events_def world0_simps)
  from log_failure_is_silent [OF c
          pair_eq [of "weather_command lib0 env_commit_fails update_moscow world0"] sent]
       c sent tr
  show ?thesis
    by (simp add: world0_simps)
qed

theorem get_weather_never_raises_witness:
  "get_weather_body moscow_response = Inr (Some moscow_weather)
   \<and> get_weather_body (Response 200 [] (Some moscow_payload_no_wind)) = Inr None
   \<and> get_weather_body (Response 200 [] (Some moscow_payload_no_weather)) = Inr None
   \<and> get_weather_body (Response 200 [] (Some (JObj []))) = Inr None
   \<and> get_weather_body not_found = Inr None
   \<and> get_weather_body timed_out = Inr None"
proof -
  note T = get_weather_never_raises [where e = "env_at 1000 timed_out" and city = Moscow
          and w = world0 and m = "ascii ''timed out''" and b = "Some JNull"]
  from T [where st = "200" and body = "[]" and d = moscow_payload]
  have 1: "get_weather_body moscow_response = Inr (Some moscow_weather)"
    by (simp add: moscow_response_def moscow_payload_def moscow_weather_def expected_fields_def
        ascii_def)
  from T [where st = "200" and body = "[]" and d = moscow_payload_no_wind]
  have 2: "get_weather_body (Response 200 [] (Some moscow_payload_no_wind)) = Inr None"
    by (simp add: moscow_payload_no_wind_def expected_fields_def ascii_def)
  from T [where st = "200" and body = "[]" and d = moscow_payload_no_weather]
  have 3: "get_weather_body (Response 200 [] (Some moscow_payload_no_weather)) = Inr None"
    by (simp add: moscow_payload_no_weather_def expected_fields_def ascii_def)
  from T [where st = "200" and body = "[]" and d = "JObj []"]
  have 4: "get_weather_body (Response 200 [] (Some (JObj []))) = Inr None"
    by (simp add: expected_fields_def)
  from T [where st = "404" and body = "ascii ''city not found''" and d = "JObj []"]
  have 5: "get_weather_body not_found = Inr None"
    and 6: "get_weather_body timed_out = Inr None"
    by (simp_all add: not_found_def timed_out_def)
  from 1 2 3 4 5 6 show ?thesis
    by simp
qed

theorem set_city_then_get_city_witness:
  "args update_setcity_paris \<noteq> []
   \<and> user_settings (snd (set_city (env_at 1000 timed_out) update_setcity_paris world0)) 42
       = Some (ascii ''Paris'')
   \<and> new_events (snd (set_city (env_at 1000 timed_out) update_setcity_paris world0))
       (snd (get_city (env_at 1001 timed_out) update_getcity
              (snd (set_city (env_at 1000 timed_out) update_setcity_paris world0))))
       = [DbQuery 42, ReplyText (MSG_YOUR_CITY @ ascii ''Paris'') True]
   \<and> user_settings (snd (set_city (env_at 1002 timed_out) update_setcity_new_york
       (snd (set_city (env_at 1000 timed_out) update_setcity_paris world0)))) 42
       = Some (ascii ''New York'')"
proof -
  have p: "args update_setcity_paris = [ascii ''Paris'']" "user_id update_setcity_paris = 42"
    by (simp_all add: update_setcity_paris_def)
  have ny: "args update_setcity_new_york = [ascii ''New'', ascii ''York'']"
    "user_id update_setcity_new_york = 42"
    by (simp_all add: update_setcity_new_york_def)
  have g: "user_id update_getcity = 42"
    by (simp add: update_getcity_def)
  have ne: "args update_setcity_paris \<noteq> []"
    by (simp add: p)
  have j: "ascii ''New'' @ 32 # ascii ''York'' = ascii ''New York''"
    by (simp add: ascii_def)
  note T = set_city_then_get_city [OF ne env_at_simps(3) [of 1000 timed_out]
      env_at_simps(4) [of 1000 timed_out]
      pair_eq [of "set_city (env_at 1000 timed_out) update_setcity_paris world0"]]
  from T have "user_settings (snd (set_city (env_at 1000 timed_out) update_setcity_paris world0))
          = (user_settings world0)(42 \<mapsto> ascii ''Paris'')"
    by (simp add: p)
  moreover
  from T [THEN conjunct2, THEN conjunct1, rule_format, of update_getcity "env_at 1001 timed_out"]
  have "new_events (snd (set_city (env_at 1000 timed_out) update_setcity_paris world0))
       (snd (get_city (env_at 1001 timed_out) update_getcity
              (snd (set_city (env_at 1000 timed_out) update_setcity_paris world0))))
       = [DbQuery 42, ReplyText (MSG_YOUR_CITY @ ascii ''Paris'') True]"
    by (simp add: p g env_at_simps)
  moreover
  from T [THEN conjunct2, THEN conjunct2, THEN conjunct1, rule_format,
          of update_setcity_new_york "env_at 1002 timed_out"]
  have "user_settings (snd (set_city (env_at 1002 timed_out) update_setcity_new_york
       (snd (set_city (env_at 1000 timed_out) update_setcity_paris world0))))
       = (user_settings world0)(42 \<mapsto> ascii ''New York'')"
    by (simp add: p ny j env_at_simps)
  ultimately show ?thesis
    using ne by simp
qed

end
